theory Spec2Isabelle
  imports Complex_Main
begin

section \<open>Numbers\<close>

text \<open>
  The drawing routines of \<^verbatim>\<open>skimage/draw/draw.py\<close> compute on NumPy arrays of
  doubles. Every finite double is a rational number, so a finite value is a \<open>rat\<close>; the
  arithmetic on finite values is taken exact (no rounding, no overflow). What NumPy
  does where the exact operation is undefined is written out: a division by zero gives
  an infinity or a NaN (NumPy warns, it does not raise), and these propagate through
  the square, the sum and the comparison as IEEE 754 says.
\<close>

datatype fp = Num rat | PosInf | NegInf | NaN

fun fp_div :: "rat \<Rightarrow> rat \<Rightarrow> fp" where
  "fp_div x y =
     (if y \<noteq> 0 then Num (x / y)
      else if 0 < x then PosInf
      else if x < 0 then NegInf
      else NaN)"

fun fp_sq :: "fp \<Rightarrow> fp" where
  "fp_sq (Num x) = Num (x * x)"
| "fp_sq PosInf = PosInf"
| "fp_sq NegInf = PosInf"
| "fp_sq NaN = NaN"

fun fp_add :: "fp \<Rightarrow> fp \<Rightarrow> fp" where
  "fp_add (Num x) (Num y) = Num (x + y)"
| "fp_add NaN _ = NaN"
| "fp_add _ NaN = NaN"
| "fp_add PosInf NegInf = NaN"
| "fp_add NegInf PosInf = NaN"
| "fp_add PosInf _ = PosInf"
| "fp_add _ PosInf = PosInf"
| "fp_add NegInf _ = NegInf"
| "fp_add _ NegInf = NegInf"

fun fp_lt1 :: "fp \<Rightarrow> bool" where
  "fp_lt1 (Num x) = (x < 1)"
| "fp_lt1 PosInf = False"
| "fp_lt1 NegInf = True"
| "fp_lt1 NaN = False"

section \<open>Ellipses and circles\<close>

text \<open>
  \<^verbatim>\<open>np.ogrid[0:float(n)]\<close> is the grid \<open>0, 1, ..., n - 1\<close>, empty when \<open>n \<le> 0\<close>.
\<close>

definition ogrid :: "int \<Rightarrow> int list" where
  "ogrid n = [0..n - 1]"

text \<open>
  \<^verbatim>\<open>np.nonzero\<close> of a two-dimensional mask: the index pairs at which the mask holds,
  in row-major order, as a pair of parallel index arrays.
\<close>

definition nonzero :: "int list \<Rightarrow> int list \<Rightarrow> (int \<Rightarrow> int \<Rightarrow> bool) \<Rightarrow> int list \<times> int list" where
  "nonzero r_lim c_lim hit =
     (let hits = filter (\<lambda>(i, j). hit i j) (List.product r_lim c_lim)
      in (map fst hits, map snd hits))"

definition distances :: "rat \<times> rat \<Rightarrow> rat \<times> rat \<Rightarrow> int \<Rightarrow> int \<Rightarrow> fp" where
  "distances center radiuses i j =
     (case center of (r, c) \<Rightarrow> case radiuses of (ry, rx) \<Rightarrow>
        fp_add (fp_sq (fp_div (of_int i - r) ry)) (fp_sq (fp_div (of_int j - c) rx)))"

definition ellipse_in_shape ::
  "int \<times> int \<Rightarrow> rat \<times> rat \<Rightarrow> rat \<times> rat \<Rightarrow> int list \<times> int list" where
  "ellipse_in_shape shape center radiuses =
     (let r_lim = ogrid (fst shape);
          c_lim = ogrid (snd shape)
      in nonzero r_lim c_lim (\<lambda>i j. fp_lt1 (distances center radiuses i j)))"

definition ellipse ::
  "rat \<Rightarrow> rat \<Rightarrow> rat \<Rightarrow> rat \<Rightarrow> (int \<times> int) option \<Rightarrow> int list \<times> int list" where
  "ellipse r c yradius xradius shape =
     (let center = (r, c);
          radiuses = (yradius, xradius);
          upper_left0 = (\<lceil>r - yradius\<rceil>, \<lceil>c - xradius\<rceil>);
          lower_right0 = (\<lfloor>r + yradius\<rfloor>, \<lfloor>c + xradius\<rfloor>);
          upper_left =
            (case shape of
               None \<Rightarrow> upper_left0
             | Some s \<Rightarrow> (max (fst upper_left0) 0, max (snd upper_left0) 0));
          lower_right =
            (case shape of
               None \<Rightarrow> lower_right0
             | Some s \<Rightarrow> (min (fst lower_right0) (fst s - 1), min (snd lower_right0) (snd s - 1)));
          shifted_center = (r - of_int (fst upper_left), c - of_int (snd upper_left));
          bounding_shape =
            (fst lower_right - fst upper_left + 1, snd lower_right - snd upper_left + 1)
      in case ellipse_in_shape bounding_shape shifted_center radiuses of
           (rr, cc) \<Rightarrow> (map (\<lambda>x. x + fst upper_left) rr, map (\<lambda>x. x + snd upper_left) cc))"

definition circle :: "rat \<Rightarrow> rat \<Rightarrow> rat \<Rightarrow> (int \<times> int) option \<Rightarrow> int list \<times> int list" where
  "circle r c radius shape = ellipse r c radius radius shape"

text \<open>
  A coordinate set is a pair of parallel arrays; \<open>coords\<close> reads it as the sequence of
  its (row, column) points.
\<close>

definition coords :: "int list \<times> int list \<Rightarrow> (int \<times> int) list" where
  "coords rc = zip (fst rc) (snd rc)"




text \<open>
  The points of the box \<open>[r0, r1] \<times> [c0, c1]\<close> at which the mask of
  \<open>ellipse_in_shape\<close> holds, in image coordinates.
\<close>

definition box_pts ::
  "int \<Rightarrow> int \<Rightarrow> int \<Rightarrow> int \<Rightarrow> rat \<Rightarrow> rat \<Rightarrow> rat \<Rightarrow> rat \<Rightarrow> (int \<times> int) set" where
  "box_pts r0 r1 c0 c1 r c ry rx =
     {p. r0 \<le> fst p \<and> fst p \<le> r1 \<and> c0 \<le> snd p \<and> snd p \<le> c1 \<and>
         fp_lt1 (distances (r, c) (ry, rx) (fst p) (snd p))}"

section \<open>Errors\<close>

text \<open>
  The exceptions of the module: the two \<^verbatim>\<open>ValueError\<close>s it raises itself
  (\<^verbatim>\<open>Must specify clipping shape\<close> and \<^verbatim>\<open>Color shape (..) must match last image dimension (..)\<close>),
  the \<^verbatim>\<open>ValueError\<close> of \<^verbatim>\<open>np.min\<close> and \<^verbatim>\<open>np.max\<close> on an empty sequence, and the
  \<^verbatim>\<open>IndexError\<close> of an array read out of range. A failure of \<open>polygon_perimeter\<close> is one
  of these, or whatever the polygon clipper raised.
\<close>

datatype error = ClipShapeMissing | ColorShapeMismatch | ReductionOfEmpty | IndexError

datatype 'e failure = Raised error | External 'e

section \<open>The in-shape coordinate filter\<close>

text \<open>
  \<^verbatim>\<open>_coords_inside_image\<close> is imported from \<^verbatim>\<open>skimage/draw/_draw\<close>, which is not
  among the sources; the specification describes it as the in-shape coordinate filter.
  It is specified for parallel sequences only, and the theorems below that depend on
  the pairing assume equal lengths.
\<close>

text \<open>
  Modelled from the spec: the bound of the filter, missing with \<^verbatim>\<open>_coords_inside_image\<close>:
  an entry is kept when its (row, col) lies within \<open>[0, shape[0]) \<times> [0, shape[1])\<close>.
\<close>

definition inside_image :: "int \<times> int \<Rightarrow> int \<Rightarrow> int \<Rightarrow> bool" where
  "inside_image shape r c = (0 \<le> r \<and> r < fst shape \<and> 0 \<le> c \<and> c < snd shape)"

text \<open>
  Modelled from the spec: \<^verbatim>\<open>_coords_inside_image(rr, cc, shape)\<close>, missing from the
  sources: given parallel row and column sequences and a target shape, it returns only
  the entries whose (row, col) lie within the shape, preserving relative order.
\<close>

definition coords_inside_image ::
  "int list \<Rightarrow> int list \<Rightarrow> int \<times> int \<Rightarrow> int list \<times> int list" where
  "coords_inside_image rr cc shape =
     (let kept = filter (\<lambda>(r, c). inside_image shape r c) (zip rr cc)
      in (map fst kept, map snd kept))"

text \<open>
  Modelled from the spec: \<^verbatim>\<open>_coords_inside_image(rr, cc, shape, val)\<close>, missing from the
  sources: with a parallel value sequence, the filter keeps the same entries and filters
  the value sequence identically.
\<close>

definition coords_inside_image_val ::
  "int list \<Rightarrow> int list \<Rightarrow> int \<times> int \<Rightarrow> 'a list \<Rightarrow> int list \<times> int list \<times> 'a list" where
  "coords_inside_image_val rr cc shape val =
     (let kept = filter (\<lambda>(r, c, v). inside_image shape r c) (zip rr (zip cc val))
      in (map fst kept, map (\<lambda>e. fst (snd e)) kept, map (\<lambda>e. snd (snd e)) kept))"

section \<open>Polygon perimeters\<close>

text \<open>
  \<^verbatim>\<open>polygon_clip\<close> (\<^verbatim>\<open>skimage/_shared/_geometry\<close>) and \<^verbatim>\<open>line\<close> (\<^verbatim>\<open>skimage/draw/_draw\<close>)
  are not among the sources either, and the specification fixes their interface only;
  \<open>polygon_perimeter\<close> takes them as parameters. The clipper may raise; the line
  rasterizer, on integers, does not.
\<close>

type_synonym 'e clipper =
  "rat list \<Rightarrow> rat list \<Rightarrow> rat \<Rightarrow> rat \<Rightarrow> rat \<Rightarrow> rat \<Rightarrow> 'e + rat list \<times> rat list"

type_synonym rasterizer = "int \<Rightarrow> int \<Rightarrow> int \<Rightarrow> int \<Rightarrow> int list \<times> int list"

definition np_min :: "rat list \<Rightarrow> error + rat" where
  "np_min xs = (case xs of [] \<Rightarrow> Inl ReductionOfEmpty | x # ys \<Rightarrow> Inr (fold min ys x))"

definition np_max :: "rat list \<Rightarrow> error + rat" where
  "np_max xs = (case xs of [] \<Rightarrow> Inl ReductionOfEmpty | x # ys \<Rightarrow> Inr (fold max ys x))"

text \<open>\<^verbatim>\<open>np.round(x).astype(int)\<close>: NumPy rounds a half to the even neighbour.\<close>

definition np_round :: "rat \<Rightarrow> int" where
  "np_round x =
     (let f = \<lfloor>x\<rfloor>; d = x - of_int f
      in if d < 1 / 2 then f
         else if 1 / 2 < d then f + 1
         else if even f then f else f + 1)"

text \<open>
  The clip box: \<^verbatim>\<open>(0, 0, shape[0] - 1, shape[1] - 1)\<close> when clipping, which needs a
  shape, and the bounding box of the vertices otherwise.
\<close>

definition clip_box ::
  "rat list \<Rightarrow> rat list \<Rightarrow> (int \<times> int) option \<Rightarrow> bool \<Rightarrow> error + rat \<times> rat \<times> rat \<times> rat" where
  "clip_box cy cx shape clip =
     (if clip then
        (case shape of
           None \<Rightarrow> Inl ClipShapeMissing
         | Some s \<Rightarrow> Inr (0, 0, of_int (fst s - 1), of_int (snd s - 1)))
      else
        (case np_min cy of Inl e \<Rightarrow> Inl e | Inr y0 \<Rightarrow>
         case np_min cx of Inl e \<Rightarrow> Inl e | Inr x0 \<Rightarrow>
         case np_max cy of Inl e \<Rightarrow> Inl e | Inr y1 \<Rightarrow>
         case np_max cx of Inl e \<Rightarrow> Inl e | Inr x1 \<Rightarrow> Inr (y0, x0, y1, x1)))"

text \<open>
  The loop \<^verbatim>\<open>for i in range(len(cy) - 1)\<close>: each pass reads \<^verbatim>\<open>cy[i], cx[i], cy[i + 1], cx[i + 1]\<close>
  (the reads of \<open>cy\<close> are in range; those of \<open>cx\<close> raise when \<open>cx\<close> is shorter) and
  extends \<open>rr\<close> and \<open>cc\<close> by the line's rows and columns.
\<close>

fun segments ::
  "rasterizer \<Rightarrow> int list \<Rightarrow> int list \<Rightarrow> nat list \<Rightarrow> int list \<times> int list \<Rightarrow>
     error + int list \<times> int list" where
  "segments line cy cx [] acc = Inr acc"
| "segments line cy cx (i # is) acc =
     (if i + 1 < length cx then
        (case line (cy ! i) (cx ! i) (cy ! (i + 1)) (cx ! (i + 1)) of
           (line_r, line_c) \<Rightarrow> segments line cy cx is (fst acc @ line_r, snd acc @ line_c))
      else Inl IndexError)"

definition polygon_perimeter ::
  "'e clipper \<Rightarrow> rasterizer \<Rightarrow> rat list \<Rightarrow> rat list \<Rightarrow> (int \<times> int) option \<Rightarrow> bool \<Rightarrow>
     'e failure + int list \<times> int list" where
  "polygon_perimeter polygon_clip line cy cx shape clip =
     (case clip_box cy cx shape clip of
        Inl e \<Rightarrow> Inl (Raised e)
      | Inr (r0, c0, r1, c1) \<Rightarrow>
          (case polygon_clip cy cx r0 c0 r1 c1 of
             Inl e \<Rightarrow> Inl (External e)
           | Inr (cy1, cx1) \<Rightarrow>
               (let cy2 = map np_round cy1;
                    cx2 = map np_round cx1
                in case segments line cy2 cx2 [0..<length cy2 - 1] ([], []) of
                     Inl e \<Rightarrow> Inl (Raised e)
                   | Inr (rr, cc) \<Rightarrow>
                       (case shape of
                          None \<Rightarrow> Inr (rr, cc)
                        | Some s \<Rightarrow> Inr (coords_inside_image rr cc s)))))"

section \<open>Compositing\<close>

text \<open>
  An image is a NumPy array of two dimensions \<open>(M, N)\<close> or of three \<open>(M, N, D)\<close>: its
  shape and its values by index. Pixel values, colours and alphas are exact rationals.
\<close>

datatype img =
    Gray nat nat "nat \<Rightarrow> nat \<Rightarrow> rat"
  | Multi nat nat nat "nat \<Rightarrow> nat \<Rightarrow> nat \<Rightarrow> rat"

text \<open>
  \<^verbatim>\<open>img[..., np.newaxis]\<close> is a view of a two-dimensional image with a last axis of
  length one; a three-dimensional image is used as it is. \<open>view\<close> gives the shape and
  the values of what \<open>set_color\<close> works on, and \<open>write_back\<close> stores new values
  through that view into the caller's array.
\<close>

record view =
  rows :: nat
  cols :: nat
  chans :: nat
  px :: "nat \<Rightarrow> nat \<Rightarrow> nat \<Rightarrow> rat"

fun as_view :: "img \<Rightarrow> view" where
  "as_view (Gray m n f) = \<lparr>rows = m, cols = n, chans = 1, px = (\<lambda>r c k. f r c)\<rparr>"
| "as_view (Multi m n d f) = \<lparr>rows = m, cols = n, chans = d, px = f\<rparr>"

fun write_back :: "img \<Rightarrow> (nat \<Rightarrow> nat \<Rightarrow> nat \<Rightarrow> rat) \<Rightarrow> img" where
  "write_back (Gray m n f) g = Gray m n (\<lambda>r c. g r c 0)"
| "write_back (Multi m n d f) g = Multi m n d g"

text \<open>\<open>pixel img r c k\<close> is channel \<open>k\<close> of the pixel at row \<open>r\<close> and column \<open>c\<close>.\<close>

definition pixel :: "img \<Rightarrow> nat \<Rightarrow> nat \<Rightarrow> nat \<Rightarrow> rat" where
  "pixel im = px (as_view im)"

datatype alpha = Scalar rat | PerPixel "rat list"

text \<open>
  \<^verbatim>\<open>img[rr, cc]\<close> reads one vector of \<open>D\<close> channels per coordinate, all from the array
  as it is at that moment. \<^verbatim>\<open>img[rr, cc] = new\<close> stores the vectors of \<open>new\<close> one
  coordinate after the other, so that of two stores to one pixel the later remains.
\<close>

definition gather :: "view \<Rightarrow> int list \<Rightarrow> int list \<Rightarrow> rat list list" where
  "gather v rr cc = map (\<lambda>(r, c). map (px v (nat r) (nat c)) [0..<chans v]) (zip rr cc)"

definition put ::
  "nat \<Rightarrow> (int \<times> int) \<times> rat list \<Rightarrow> (nat \<Rightarrow> nat \<Rightarrow> nat \<Rightarrow> rat) \<Rightarrow> nat \<Rightarrow> nat \<Rightarrow> nat \<Rightarrow> rat" where
  "put d u f =
     (\<lambda>r c k. if r = nat (fst (fst u)) \<and> c = nat (snd (fst u)) \<and> k < d then snd u ! k else f r c k)"

definition scatter ::
  "view \<Rightarrow> int list \<Rightarrow> int list \<Rightarrow> rat list list \<Rightarrow> nat \<Rightarrow> nat \<Rightarrow> nat \<Rightarrow> rat" where
  "scatter v rr cc new = fold (put (chans v)) (zip (zip rr cc) new) (px v)"

definition set_color :: "img \<Rightarrow> int list \<times> int list \<Rightarrow> rat list \<Rightarrow> alpha \<Rightarrow> img \<times> (error + unit)" where
  "set_color im coordinates color alpha =
     (case coordinates of (rr, cc) \<Rightarrow>
        let v = as_view im in
        if chans v \<noteq> length color then (im, Inl ColorShapeMismatch)
        else
          let alpha1 = (case alpha of Scalar a \<Rightarrow> map (\<lambda>one. one * a) (replicate (length rr) 1)
                                    | PerPixel as \<Rightarrow> as)
          in case coords_inside_image_val rr cc (int (rows v), int (cols v)) alpha1 of
               (rr1, cc1, alpha2) \<Rightarrow>
                 let color1 = map (\<lambda>a. map (\<lambda>x. x * a) color) alpha2;
                     vals = map2 (\<lambda>p a. map (\<lambda>x. x * (1 - a)) p) (gather v rr1 cc1) alpha2;
                     new = map2 (map2 (+)) vals color1
                 in (write_back im (scatter v rr1 cc1 new), Inr ()))"


text \<open>
  The data model's invariants of a call: the row and column sequences are parallel, and
  a per-coordinate alpha has one value per coordinate.
\<close>

definition parallel :: "int list \<times> int list \<Rightarrow> alpha \<Rightarrow> bool" where
  "parallel coordinates alpha =
     (length (fst coordinates) = length (snd coordinates) \<and>
      (case alpha of Scalar a \<Rightarrow> True | PerPixel as \<Rightarrow> length as = length (fst coordinates)))"


section \<open>Auxiliary notions for the compositor\<close>

text \<open>
  The entries that survive the filter, as (row, column, alpha) triples; the store that
  \<open>set_color\<close> makes for one of them (its coordinate and its blended vector, read from
  the array as it was at the call); a scalar alpha spread over the coordinates; and
  whether a store goes to the pixel at row \<open>r\<close> and column \<open>c\<close>.
\<close>

definition kept :: "view \<Rightarrow> int list \<Rightarrow> int list \<Rightarrow> rat list \<Rightarrow> (int \<times> int \<times> rat) list" where
  "kept v rr cc al =
     filter (\<lambda>(r, c, a). inside_image (int (rows v), int (cols v)) r c) (zip rr (zip cc al))"

definition blended :: "view \<Rightarrow> rat list \<Rightarrow> int \<times> int \<times> rat \<Rightarrow> (int \<times> int) \<times> rat list" where
  "blended v color e =
     (case e of (r, c, a) \<Rightarrow>
        ((r, c), map2 (+) (map (\<lambda>x. x * (1 - a)) (map (px v (nat r) (nat c)) [0..<chans v]))
                          (map (\<lambda>x. x * a) color)))"

definition alphas :: "alpha \<Rightarrow> nat \<Rightarrow> rat list" where
  "alphas alpha n = (case alpha of Scalar a \<Rightarrow> replicate n a | PerPixel as \<Rightarrow> as)"

definition hits :: "(int \<times> int) \<times> rat list \<Rightarrow> nat \<Rightarrow> nat \<Rightarrow> bool" where
  "hits u r c = (r = nat (fst (fst u)) \<and> c = nat (snd (fst u)))"

section \<open>Auxiliary notions for the perimeter tracer\<close>

text \<open>
  A pixel path is connected when each pixel is the same as the one before it or one of
  its eight neighbours.
\<close>

definition adjacent8 :: "int \<times> int \<Rightarrow> int \<times> int \<Rightarrow> bool" where
  "adjacent8 p q = (\<bar>fst p - fst q\<bar> \<le> 1 \<and> \<bar>snd p - snd q\<bar> \<le> 1)"

fun connected8 :: "(int \<times> int) list \<Rightarrow> bool" where
  "connected8 [] = True"
| "connected8 [p] = True"
| "connected8 (p # q # ps) = (adjacent8 p q \<and> connected8 (q # ps))"

text \<open>
  What the specification asks of the line rasterizer on the edge from \<open>a\<close> to \<open>b\<close>:
  parallel row and column sequences, a connected path that starts at \<open>a\<close> and ends at
  \<open>b\<close>, both included. \<open>edges_ok\<close> asks it on every edge of a vertex sequence.
\<close>

definition path_from_to :: "int \<times> int \<Rightarrow> int \<times> int \<Rightarrow> int list \<times> int list \<Rightarrow> bool" where
  "path_from_to a b l =
     (length (fst l) = length (snd l) \<and> fst l \<noteq> [] \<and>
      hd (coords l) = a \<and> last (coords l) = b \<and> connected8 (coords l))"

fun edges_ok :: "rasterizer \<Rightarrow> (int \<times> int) list \<Rightarrow> bool" where
  "edges_ok line (a # b # vs) =
     (path_from_to a b (line (fst a) (snd a) (fst b) (snd b)) \<and> edges_ok line (b # vs))"
| "edges_ok line vs = True"

text \<open>
  The concatenation of the per-edge lines over consecutive vertices, by recursion on
  the vertex sequence.
\<close>

fun traced :: "rasterizer \<Rightarrow> (int \<times> int) list \<Rightarrow> int list \<times> int list" where
  "traced line (a # b # vs) =
     (case line (fst a) (snd a) (fst b) (snd b) of
        (line_r, line_c) \<Rightarrow>
          (case traced line (b # vs) of (rr, cc) \<Rightarrow> (line_r @ rr, line_c @ cc)))"
| "traced line vs = ([], [])"

text \<open>
  What the specification asks of the polygon clipper's result: parallel sequences that
  form a closed polygon, the first vertex being the last; a polygon has an edge, so
  there are at least two entries.
\<close>

definition closed_polygon :: "rat list \<times> rat list \<Rightarrow> bool" where
  "closed_polygon v =
     (length (fst v) = length (snd v) \<and> 2 \<le> length (fst v) \<and>
      hd (fst v) = last (fst v) \<and> hd (snd v) = last (snd v))"

text \<open>Every pixel of a coordinate set lies within the shape, if there is one.\<close>

definition unfiltered :: "(int \<times> int) option \<Rightarrow> int list \<times> int list \<Rightarrow> bool" where
  "unfiltered shape l =
     (case shape of None \<Rightarrow> True
      | Some s \<Rightarrow> list_all (\<lambda>(r, c). inside_image s r c) (coords l))"

text \<open>
  Modelled from the spec: \<^verbatim>\<open>polygon_clip\<close> is not among the sources. The specification
  gives the clipper as returning a new closed polygon (first vertex = last vertex)
  clipped to the box. \<open>closing_clip\<close> is that clipper on the polygons that lie within
  the box, where nothing is cut off: it returns the polygon closed by its first vertex.
  On every other input it fails, so that nothing is claimed about real clipping.
\<close>

definition closing_clip :: "unit clipper" where
  "closing_clip cy cx r0 c0 r1 c1 =
     (if cy \<noteq> [] \<and> length cy = length cx \<and>
         list_all (\<lambda>y. r0 \<le> y \<and> y \<le> r1) cy \<and> list_all (\<lambda>x. c0 \<le> x \<and> x \<le> c1) cx
      then Inr (cy @ [hd cy], cx @ [hd cx])
      else Inl ())"

text \<open>
  Modelled from the spec: \<^verbatim>\<open>line\<close> is not among the sources. The specification gives
  the rasterizer as producing a connected (8-connected or Bresenham) path from the
  start to the end, both included. \<open>step_line\<close> is such a path: it steps diagonally
  while both coordinates differ from the end's and straight afterwards. On horizontal,
  vertical and diagonal edges there is no other shortest connected path.
\<close>

definition step_line :: rasterizer where
  "step_line r0 c0 r1 c1 =
     (let n = max \<bar>r1 - r0\<bar> \<bar>c1 - c0\<bar>
      in (map (\<lambda>i. r0 + sgn (r1 - r0) * min i \<bar>r1 - r0\<bar>) [0..n],
          map (\<lambda>i. c0 + sgn (c1 - c0) * min i \<bar>c1 - c0\<bar>) [0..n]))"


section \<open>Properties of the ellipse rasterizer\<close>

lemma coords_nonzero:
  "coords (nonzero rl cl hit) = filter (\<lambda>(i, j). hit i j) (List.product rl cl)"
  by (simp add: coords_def nonzero_def Let_def zip_map_fst_snd)

lemma coords_shift:
  "coords (case p of (rr, cc) \<Rightarrow> (map (\<lambda>x. x + a) rr, map (\<lambda>x. x + b) cc))
   = map (\<lambda>(i, j). (i + a, j + b)) (coords p)"
  by (cases p) (simp add: coords_def zip_map_map case_prod_unfold)

lemma distances_shift:
  "distances (r - of_int a, c - of_int b) rad i j = distances (r, c) rad (i + a) (j + b)"
  by (cases rad) (simp add: distances_def algebra_simps)

lemma set_shifted_box:
  "set (map (\<lambda>(i, j). (i + a, j + b))
         (filter (\<lambda>(i, j). fp_lt1 (distances (r - of_int a, c - of_int b) (ry, rx) i j))
            (List.product (ogrid (r1 - a + 1)) (ogrid (c1 - b + 1)))))
   = box_pts a r1 b c1 r c ry rx"
proof -
  let ?S = "{q \<in> {0..r1 - a} \<times> {0..c1 - b}.
              fp_lt1 (distances (r, c) (ry, rx) (fst q + a) (snd q + b))}"
  have "p \<in> (\<lambda>(i, j). (i + a, j + b)) ` ?S" if p: "p \<in> box_pts a r1 b c1 r c ry rx" for p
  proof -
    let ?q = "(fst p - a, snd p - b)"
    have "?q \<in> ?S"
      using p by (simp add: box_pts_def)
    moreover have "p = (\<lambda>(i, j). (i + a, j + b)) ?q"
      by simp
    ultimately show ?thesis
      by (rule rev_image_eqI)
  qed
  moreover have "(\<lambda>(i, j). (i + a, j + b)) q \<in> box_pts a r1 b c1 r c ry rx" if "q \<in> ?S" for q
    using that by (auto simp: box_pts_def)
  ultimately show ?thesis
    by (auto simp: ogrid_def distances_shift case_prod_unfold)
qed

lemma coords_ellipse_None:
  "set (coords (ellipse r c ry rx None)) =
     box_pts \<lceil>r - ry\<rceil> \<lfloor>r + ry\<rfloor> \<lceil>c - rx\<rceil> \<lfloor>c + rx\<rfloor> r c ry rx"
  unfolding ellipse_def Let_def ellipse_in_shape_def
  by (simp add: coords_shift coords_nonzero set_shifted_box del: set_map set_filter)













text \<open>
  C4. \<open>circle r c radius shape\<close> returns what \<open>ellipse r c radius radius shape\<close> returns,
  the same sequences element for element, with or without a shape.
\<close>

theorem circle_is_ellipse: "circle r c radius shape = ellipse r c radius radius shape"
  by (simp add: circle_def)

text \<open>
  C10. Without a shape the output is not restricted to non-negative coordinates:
  \<open>ellipse 0 0 2 2\<close> returns the nine points of \<open>{-1, 0, 1} \<times> {-1, 0, 1}\<close>, among them
  points of negative row and of negative column.
\<close>

theorem ellipse_negative_coordinates:
  "ellipse 0 0 2 2 None =
     ([- 1, - 1, - 1, 0, 0, 0, 1, 1, 1], [- 1, 0, 1, - 1, 0, 1, - 1, 0, 1]) \<and>
   (\<exists>row col. (row, col) \<in> set (coords (ellipse 0 0 2 2 None)) \<and> (row < 0 \<or> col < 0))"
proof
  show "ellipse 0 0 2 2 None =
     ([- 1, - 1, - 1, 0, 0, 0, 1, 1, 1], [- 1, 0, 1, - 1, 0, 1, - 1, 0, 1])"
    by code_simp
  have "(- 1, - 1) \<in> set (coords (ellipse 0 0 2 2 None))"
    by (simp add: coords_ellipse_None box_pts_def distances_def)
  then show "\<exists>row col. (row, col) \<in> set (coords (ellipse 0 0 2 2 None)) \<and> (row < 0 \<or> col < 0)"
    by force
qed

section \<open>Properties of the compositor\<close>

lemma updates_of_kept:
  "zip (zip (map fst es) (map (\<lambda>e. fst (snd e)) es))
       (map2 (map2 (+))
          (map2 (\<lambda>p a. map (\<lambda>x. x * (1 - a)) p)
             (gather v (map fst es) (map (\<lambda>e. fst (snd e)) es)) (map (\<lambda>e. snd (snd e)) es))
          (map (\<lambda>a. map (\<lambda>x. x * a) color) (map (\<lambda>e. snd (snd e)) es)))
   = map (blended v color) es"
  by (induction es) (auto simp: gather_def blended_def)

lemma set_color_fold:
  assumes "chans (as_view im) = length color"
  shows "set_color im (rr, cc) color alpha =
     (write_back im
        (fold (put (chans (as_view im)))
           (map (blended (as_view im) color) (kept (as_view im) rr cc (alphas alpha (length rr))))
           (px (as_view im))), Inr ())"
proof -
  let ?v = "as_view im"
  let ?es = "kept ?v rr cc (alphas alpha (length rr))"
  let ?rr1 = "map fst ?es"
  let ?cc1 = "map (\<lambda>e. fst (snd e)) ?es"
  let ?al2 = "map (\<lambda>e. snd (snd e)) ?es"
  have al: "(case alpha of Scalar a \<Rightarrow> map (\<lambda>one. one * a) (replicate (length rr) 1) | PerPixel as \<Rightarrow> as)
        = alphas alpha (length rr)"
    by (cases alpha) (simp_all add: alphas_def)
  have flt: "coords_inside_image_val rr cc (int (rows ?v), int (cols ?v)) (alphas alpha (length rr))
        = (?rr1, ?cc1, ?al2)"
    by (simp add: coords_inside_image_val_def kept_def Let_def)
  have "set_color im (rr, cc) color alpha =
      (write_back im
         (scatter ?v ?rr1 ?cc1
            (map2 (map2 (+))
               (map2 (\<lambda>p a. map (\<lambda>x. x * (1 - a)) p) (gather ?v ?rr1 ?cc1) ?al2)
               (map (\<lambda>a. map (\<lambda>x. x * a) color) ?al2))), Inr ())"
    unfolding set_color_def Let_def
    by (simp only: prod.case assms al flt simp_thms if_False)
  also have "\<dots> = (write_back im (fold (put (chans ?v)) (map (blended ?v color) ?es) (px ?v)), Inr ())"
    by (simp only: scatter_def updates_of_kept)
  finally show ?thesis .
qed

lemma put_apply:
  "put d u f r c k = (if hits u r c \<and> k < d then snd u ! k else f r c k)"
  by (simp add: put_def hits_def)

lemma fold_put_miss:
  "\<forall>u \<in> set us. \<not> hits u r c \<Longrightarrow> fold (put d) us f r c k = f r c k"
  by (induction us arbitrary: f) (simp_all add: put_apply)





lemma kept_iff:
  "(r, c, a) \<in> set (kept v rr cc al) \<longleftrightarrow>
     (r, c, a) \<in> set (zip rr (zip cc al)) \<and> inside_image (int (rows v), int (cols v)) r c"
  by (simp add: kept_def)

lemma zip3_coords: "(r, c, a) \<in> set (zip rr (zip cc al)) \<Longrightarrow> (r, c) \<in> set (zip rr cc)"
  by (auto simp: in_set_zip)

lemma hits_kept:
  assumes "e \<in> set (kept v rr cc al)" "hits (blended v color e) r c"
  shows "(int r, int c) \<in> set (zip rr cc) \<and> r < rows v \<and> c < cols v"
proof -
  obtain r0 c0 a where e: "e = (r0, c0, a)" by (cases e)
  have z: "(r0, c0, a) \<in> set (zip rr (zip cc al))" and i: "inside_image (int (rows v), int (cols v)) r0 c0"
    using assms(1) by (simp_all add: e kept_iff)
  have "r = nat r0" "c = nat c0" using assms(2) by (simp_all add: e hits_def blended_def)
  with i have "r0 = int r" "c0 = int c" "r < rows v" "c < cols v"
    by (auto simp: inside_image_def)
  with zip3_coords [OF z] show ?thesis by simp
qed


lemma pixel_write_back_same:
  "(\<And>k. g r c k = px (as_view im) r c k) \<Longrightarrow> pixel (write_back im g) r c k = pixel im r c k"
  by (cases im) (simp_all add: pixel_def)







text \<open>
  C6. When the length of the colour vector differs from the image's channel count (a
  two-dimensional image counting as one channel), \<open>set_color\<close> fails with the
  shape-mismatch error and the image is exactly as it was: the check comes before any
  store.
\<close>

theorem set_color_shape_mismatch:
  "chans (as_view im) \<noteq> length color \<Longrightarrow>
     set_color im coordinates color alpha = (im, Inl ColorShapeMismatch)"
  by (cases coordinates) (simp add: set_color_def)

theorem set_color_shape_mismatch_witness:
  "chans (as_view (Multi 2 2 3 (\<lambda>r c k. 0))) \<noteq> length [1 :: rat, 1] \<and>
   set_color (Multi 2 2 3 (\<lambda>r c k. 0)) ([0], [0]) [1, 1] (Scalar 1)
     = (Multi 2 2 3 (\<lambda>r c k. 0), Inl ColorShapeMismatch)"
  using set_color_shape_mismatch [of "Multi 2 2 3 (\<lambda>r c k. 0)" "[1, 1]" "([0], [0])" "Scalar 1"]
  by simp



text \<open>
  C8. After any call of \<open>set_color\<close>, a pixel that is not addressed by an in-bounds
  input coordinate, in particular one addressed only by coordinates outside
  \<open>[0, height) \<times> [0, width)\<close>, has its original value in every channel. A call with
  parallel sequences and a colour of the right length succeeds whatever the
  coordinates are: those out of bounds are dropped, not raised.
\<close>

theorem set_color_frame:
  "(\<not> ((int r, int c) \<in> set (zip rr cc) \<and> r < rows (as_view im) \<and> c < cols (as_view im)) \<longrightarrow>
      pixel (fst (set_color im (rr, cc) color alpha)) r c k = pixel im r c k) \<and>
   (parallel (rr, cc) alpha \<and> chans (as_view im) = length color \<longrightarrow>
      snd (set_color im (rr, cc) color alpha) = Inr ())"
proof (intro conjI impI)
  assume out: "\<not> ((int r, int c) \<in> set (zip rr cc) \<and> r < rows (as_view im) \<and> c < cols (as_view im))"
  show "pixel (fst (set_color im (rr, cc) color alpha)) r c k = pixel im r c k"
  proof (cases "chans (as_view im) = length color")
    case False
    then show ?thesis by (simp add: set_color_def)
  next
    case True
    let ?v = "as_view im"
    let ?us = "map (blended ?v color) (kept ?v rr cc (alphas alpha (length rr)))"
    have "\<forall>u \<in> set ?us. \<not> hits u r c"
      using out hits_kept [of _ ?v rr cc "alphas alpha (length rr)" color r c] by auto
    then have "fold (put (chans ?v)) ?us (px ?v) r c k' = px ?v r c k'" for k'
      by (rule fold_put_miss)
    then show ?thesis
      by (simp add: set_color_fold [OF True] pixel_write_back_same)
  qed
next
  assume "parallel (rr, cc) alpha \<and> chans (as_view im) = length color"
  then show "snd (set_color im (rr, cc) color alpha) = Inr ()"
    by (simp add: set_color_fold)
qed

theorem set_color_frame_witness:
  "pixel (fst (set_color (Gray 2 2 (\<lambda>r c. 5)) ([0, 3, - 1], [1, 0, 0]) [7] (Scalar 1))) 1 0 0 = 5 \<and>
   snd (set_color (Gray 2 2 (\<lambda>r c. 5)) ([0, 3, - 1], [1, 0, 0]) [7] (Scalar 1)) = Inr ()"
  using set_color_frame [of 1 0 "[0, 3, - 1]" "[1, 0, 0]" "Gray 2 2 (\<lambda>r c. 5)" "[7]" "Scalar 1" 0]
  by (simp add: parallel_def pixel_def)




section \<open>Properties of the perimeter tracer\<close>

lemma segments_error: "segments line cy cx is acc = Inl e \<Longrightarrow> e = IndexError"
  by (induction "is" arbitrary: acc) (auto split: if_splits prod.splits)

text \<open>
  C5. Whatever the vertices, \<open>polygon_perimeter\<close> with \<open>clip\<close> set and no shape fails
  with the error \<^verbatim>\<open>Must specify clipping shape\<close>. The clipper and the line rasterizer
  are arbitrary here, also ones that fail: the error is raised before either is
  called, and nothing is rounded or traced. With \<open>clip\<close> set and a shape given, this
  error is not raised.
\<close>

theorem clip_needs_shape:
  "polygon_perimeter polygon_clip line cy cx None True = Inl (Raised ClipShapeMissing) \<and>
   polygon_perimeter polygon_clip line cy cx (Some shape) True \<noteq> Inl (Raised ClipShapeMissing)"
proof
  show "polygon_perimeter polygon_clip line cy cx None True = Inl (Raised ClipShapeMissing)"
    by (simp add: polygon_perimeter_def clip_box_def)
  show "polygon_perimeter polygon_clip line cy cx (Some shape) True \<noteq> Inl (Raised ClipShapeMissing)"
    by (auto simp: polygon_perimeter_def clip_box_def Let_def
          split: sum.splits prod.splits dest: segments_error)
qed

lemma coords_append:
  "length a = length b \<Longrightarrow> coords (a @ c, b @ d) = coords (a, b) @ coords (c, d)"
  by (simp add: coords_def)

lemma connected8_append:
  assumes "connected8 ps" "connected8 qs" "ps \<noteq> []" "qs \<noteq> []" "adjacent8 (last ps) (hd qs)"
  shows "connected8 (ps @ qs)"
  using assms
proof (induction ps rule: connected8.induct)
  case 1
  then show ?case by simp
next
  case (2 p)
  then show ?case by (cases qs) simp_all
next
  case (3 p q ps)
  then show ?case by simp
qed

lemma adjacent8_refl: "adjacent8 p p"
  by (simp add: adjacent8_def)

text \<open>Tracing two or more vertices whose edges are good paths gives a good path from the first to the last.\<close>

lemma traced_path:
  assumes "edges_ok line (a # b # vs)"
  shows "path_from_to a (last (b # vs)) (traced line (a # b # vs))"
  using assms
proof (induction vs arbitrary: a b)
  case Nil
  then show ?case
    by (cases "line (fst a) (snd a) (fst b) (snd b)") (simp add: path_from_to_def)
next
  case (Cons c ws)
  obtain lr lc where l: "line (fst a) (snd a) (fst b) (snd b) = (lr, lc)"
    by (cases "line (fst a) (snd a) (fst b) (snd b)")
  obtain rr cc where t: "traced line (b # c # ws) = (rr, cc)"
    by (cases "traced line (b # c # ws)")
  have e: "path_from_to a b (lr, lc)" and rest: "edges_ok line (b # c # ws)"
    using Cons.prems l by simp_all
  have ih: "path_from_to b (last (c # ws)) (rr, cc)"
    using Cons.IH [OF rest] t by simp
  have len: "length lr = length lc" "length rr = length cc" "lr \<noteq> []" "rr \<noteq> []"
    using e ih by (simp_all add: path_from_to_def)
  have ne: "coords (lr, lc) \<noteq> []" "coords (rr, cc) \<noteq> []"
    using len by (auto simp: coords_def zip_eq_Nil_iff)
  have tr: "traced line (a # b # c # ws) = (lr @ rr, lc @ cc)"
    using l t by simp
  have co: "coords (lr @ rr, lc @ cc) = coords (lr, lc) @ coords (rr, cc)"
    using len by (simp add: coords_append)
  have "adjacent8 (last (coords (lr, lc))) (hd (coords (rr, cc)))"
    using e ih by (simp add: path_from_to_def adjacent8_refl)
  then have "connected8 (coords (lr, lc) @ coords (rr, cc))"
    using e ih ne by (intro connected8_append) (simp_all add: path_from_to_def)
  moreover have "hd (coords (lr, lc) @ coords (rr, cc)) = a"
    using e ne by (simp add: path_from_to_def)
  moreover have "last (coords (lr, lc) @ coords (rr, cc)) = last (c # ws)"
    using ih ne by (simp add: path_from_to_def)
  ultimately show ?case
    unfolding tr path_from_to_def co using len by simp
qed

lemma traced_short: "length vs \<le> 1 \<Longrightarrow> traced line vs = ([], [])"
  by (induction line vs rule: traced.induct) simp_all

text \<open>The index loop computes the trace of the zipped vertices.\<close>

lemma segments_traced:
  assumes "length cx = length cy" "k \<le> length cy - 1"
  shows "segments line cy cx [k..<length cy - 1] acc =
           Inr (fst acc @ fst (traced line (drop k (zip cy cx))),
                snd acc @ snd (traced line (drop k (zip cy cx))))"
  using assms(2)
proof (induction "length cy - 1 - k" arbitrary: k acc)
  case 0
  then have k: "k = length cy - 1" by simp
  have "length (drop k (zip cy cx)) \<le> 1"
    using assms(1) k by simp
  then have "traced line (drop k (zip cy cx)) = ([], [])"
    by (rule traced_short)
  then show ?case using k by simp
next
  case (Suc n)
  then have k: "k < length cy - 1" by simp
  then have up: "[k..<length cy - 1] = k # [Suc k..<length cy - 1]"
    by (simp add: upt_conv_Cons)
  have lz: "length (zip cy cx) = length cy" using assms(1) by simp
  have k1: "k < length (zip cy cx)" "Suc k < length (zip cy cx)" using k lz by simp_all
  have dr: "drop k (zip cy cx) = (cy ! k, cx ! k) # (cy ! Suc k, cx ! Suc k) # drop (Suc (Suc k)) (zip cy cx)"
    using Cons_nth_drop_Suc [OF k1(1)] Cons_nth_drop_Suc [OF k1(2)] k1 by simp
  have dr1: "drop (Suc k) (zip cy cx) = (cy ! Suc k, cx ! Suc k) # drop (Suc (Suc k)) (zip cy cx)"
    using Cons_nth_drop_Suc [OF k1(2)] k1 by simp
  obtain lr lc where l: "line (cy ! k) (cx ! k) (cy ! Suc k) (cx ! Suc k) = (lr, lc)"
    by (cases "line (cy ! k) (cx ! k) (cy ! Suc k) (cx ! Suc k)")
  have n: "n = length cy - 1 - Suc k" using Suc.hyps(2) by simp
  have sk: "Suc k \<le> length cy - 1" using k by simp
  have inr: "Suc k < length cx" using k assms(1) by simp
  have "segments line cy cx [k..<length cy - 1] acc
        = segments line cy cx [Suc k..<length cy - 1] (fst acc @ lr, snd acc @ lc)"
    unfolding up using inr l by simp
  also have "\<dots> = Inr ((fst acc @ lr) @ fst (traced line (drop (Suc k) (zip cy cx))),
                         (snd acc @ lc) @ snd (traced line (drop (Suc k) (zip cy cx))))"
    using Suc.hyps(1) [OF n sk, of "(fst acc @ lr, snd acc @ lc)"] by simp
  also have "\<dots> = Inr (fst acc @ fst (traced line (drop k (zip cy cx))),
                         snd acc @ snd (traced line (drop k (zip cy cx))))"
    unfolding dr using l dr1 by (simp add: case_prod_unfold)
  finally show ?case .
qed

lemma filter_all_inside:
  assumes "length rr = length cc" "list_all (\<lambda>(r, c). inside_image s r c) (coords (rr, cc))"
  shows "coords_inside_image rr cc s = (rr, cc)"
proof -
  have "filter (\<lambda>(r, c). inside_image s r c) (zip rr cc) = zip rr cc"
    using assms(2) by (simp add: coords_def list_all_iff)
  then show ?thesis
    using assms(1) by (simp add: coords_inside_image_def Let_def)
qed

text \<open>
  C9, as the code has it. Let the clipper return a closed polygon, let the line
  rasterizer give on each edge of the rounded polygon a connected path from the edge's
  start to its end, and let no traced pixel lie outside the shape, if one is given.
  Then \<open>polygon_perimeter\<close> succeeds, and its output is the concatenation of the
  per-edge lines over consecutive clipped and rounded vertices: it is not empty, its
  rows and columns are parallel, it is connected, and its last pixel is its first.
\<close>

theorem polygon_perimeter_closed_path:
  assumes box: "clip_box cy cx shape clip = Inr (r0, c0, r1, c1)"
    and clipped: "polygon_clip cy cx r0 c0 r1 c1 = Inr (vy, vx)"
    and closed: "closed_polygon (vy, vx)"
    and edges: "edges_ok line (zip (map np_round vy) (map np_round vx))"
    and keep: "unfiltered shape (traced line (zip (map np_round vy) (map np_round vx)))"
  shows "\<exists>rr cc. polygon_perimeter polygon_clip line cy cx shape clip = Inr (rr, cc) \<and>
           (rr, cc) = traced line (zip (map np_round vy) (map np_round vx)) \<and>
           rr \<noteq> [] \<and> length rr = length cc \<and>
           last (coords (rr, cc)) = hd (coords (rr, cc)) \<and> connected8 (coords (rr, cc))"
proof -
  let ?cy = "map np_round vy"
  let ?cx = "map np_round vx"
  let ?vs = "zip ?cy ?cx"
  have len: "length vx = length vy" "2 \<le> length vy"
    and ends: "hd vy = last vy" "hd vx = last vx"
    using closed by (simp_all add: closed_polygon_def)
  have ne: "vy \<noteq> []" "vx \<noteq> []"
    using len by auto
  have lvs: "length ?vs = length vy"
    using len by simp
  have "2 \<le> length ?vs"
    using lvs len(2) by (simp only:)
  then obtain a b ws where vs: "?vs = a # b # ws"
    by (cases ?vs; cases "tl ?vs") auto
  have "hd ?vs = (np_round (hd vy), np_round (hd vx))"
    using ne by (cases vy; cases vx) simp_all
  moreover have "last ?vs = (np_round (last vy), np_round (last vx))"
    using ne len(1) by (simp add: last_zip last_map)
  ultimately have "last ?vs = hd ?vs"
    using ends by simp
  then have ret: "last (b # ws) = a"
    using vs by simp
  obtain rr cc where t: "traced line ?vs = (rr, cc)"
    by (cases "traced line ?vs")
  have "path_from_to a (last (b # ws)) (traced line (a # b # ws))"
    using edges unfolding vs by (rule traced_path)
  then have path: "path_from_to a a (rr, cc)"
    using ret t vs by simp
  have seg: "segments line ?cy ?cx [0..<length ?cy - 1] ([], []) = Inr (rr, cc)"
    using segments_traced [of ?cx ?cy 0 line "([], [])"] len t by simp
  have flt: "(case shape of None \<Rightarrow> Inr (rr, cc) | Some s \<Rightarrow> Inr (coords_inside_image rr cc s))
        = (Inr (rr, cc) :: 'a failure + int list \<times> int list)"
  proof (cases shape)
    case None
    then show ?thesis by simp
  next
    case (Some s)
    have "coords_inside_image rr cc s = (rr, cc)"
      using keep path by (intro filter_all_inside) (simp_all add: t Some unfiltered_def path_from_to_def)
    then show ?thesis using Some by simp
  qed
  have "polygon_perimeter polygon_clip line cy cx shape clip = Inr (rr, cc)"
    unfolding polygon_perimeter_def Let_def
    by (simp only: box clipped seg flt sum.case prod.case)
  then show ?thesis
    using path t by (simp add: path_from_to_def)
qed

theorem polygon_perimeter_closed_path_witness:
  "\<exists>rr cc. polygon_perimeter closing_clip step_line [0, 0, 3] [0, 3, 3] (Some (4, 4)) True = Inr (rr, cc) \<and>
     (rr, cc) = traced step_line (zip (map np_round [0, 0, 3, 0]) (map np_round [0, 3, 3, 0])) \<and>
     rr \<noteq> [] \<and> length rr = length cc \<and>
     last (coords (rr, cc)) = hd (coords (rr, cc)) \<and> connected8 (coords (rr, cc))"
proof (rule polygon_perimeter_closed_path)
  show "clip_box [0, 0, 3] [0, 3, 3] (Some (4, 4)) True = Inr (0, 0, 3, 3)"
    by (simp add: clip_box_def)
  show "closing_clip [0, 0, 3] [0, 3, 3] 0 0 3 3 = Inr ([0, 0, 3, 0], [0, 3, 3, 0])"
    by (simp add: closing_clip_def)
  show "closed_polygon ([0, 0, 3, 0], [0, 3, 3, 0])"
    by (simp add: closed_polygon_def)
  show "edges_ok step_line (zip (map np_round [0, 0, 3, 0]) (map np_round [0, 3, 3, 0]))"
    by code_simp
  show "unfiltered (Some (4, 4))
          (traced step_line (zip (map np_round [0, 0, 3, 0]) (map np_round [0, 3, 3, 0])))"
    by code_simp
qed

text \<open>
  C9 as stated fails when the shape filter removes pixels. The triangle
  \<open>(20, 20), (20, 30), (30, 30)\<close> has three vertices and lies outside the shape
  \<open>(10, 10)\<close>; without clipping, its clip box is its own bounding box, the clipper
  returns it closed, every edge is traced, and the filter then drops every pixel:
  \<open>polygon_perimeter\<close> succeeds with an empty output.
\<close>

theorem polygon_perimeter_empty_counterexample:
  "closing_clip [20, 20, 30] [20, 30, 30] 20 20 30 30 = Inr ([20, 20, 30, 20], [20, 30, 30, 20]) \<and>
   closed_polygon ([20, 20, 30, 20], [20, 30, 30, 20]) \<and>
   edges_ok step_line (zip (map np_round [20, 20, 30, 20]) (map np_round [20, 30, 30, 20])) \<and>
   polygon_perimeter closing_clip step_line [20, 20, 30] [20, 30, 30] (Some (10, 10)) False
     = Inr ([], [])"
  by code_simp

end
